theory Spec2Isabelle
  imports Main "HOL-Library.AList"
begin

section \<open>The inventory API of aftertone: a shallow embedding\<close>

text \<open>
  The theory embeds the inventory function (\<^verbatim>\<open>handleGet\<close>, \<^verbatim>\<open>handlePost\<close>,
  \<^verbatim>\<open>verifyAuth\<close>, \<^verbatim>\<open>validateItem\<close>, \<^verbatim>\<open>normalizeId\<close>) as HOL functions.

  \<^item> A JavaScript string is a \<open>string\<close>. The string built-ins are written out for
    ASCII: \<open>toLowerCase\<close> maps \<open>A\<close>..\<open>Z\<close>, \<open>trim\<close> removes the ASCII white
    space characters; other characters are left alone.
  \<^item> A value that came out of \<^verbatim>\<open>JSON.parse\<close> is a \<open>json\<close>; \<^verbatim>\<open>undefined\<close> is
    \<open>None\<close> of \<open>json option\<close>. Numbers are modelled by integers, printed in decimal.
  \<^item> An object lists its properties in the order of their creation; that an engine
    lists integer-like keys first is not modelled, and no statement depends on the
    order of the properties of a record.
  \<^item> A thrown exception is \<open>Inl\<close> of a sum; an \<^verbatim>\<open>async\<close> function that rejects is a
    function that throws.
  \<^item> The blob store, the token verifier, \<^verbatim>\<open>JSON.parse\<close> and \<^verbatim>\<open>JSON.stringify\<close>
    are outside the repository: they are fields of the record \<open>world\<close>, and the
    stored document is passed in and out explicitly.
\<close>

subsection \<open>Strings\<close>

definition toLowerCase_char :: "char \<Rightarrow> char" where
  "toLowerCase_char c =
     (let n = (of_char c :: nat) in if 65 \<le> n \<and> n \<le> 90 then char_of (n + 32) else c)"

definition toLowerCase :: "string \<Rightarrow> string" where
  "toLowerCase s = map toLowerCase_char s"

definition is_space :: "char \<Rightarrow> bool" where
  "is_space c = (let n = (of_char c :: nat) in n = 32 \<or> (9 \<le> n \<and> n \<le> 13))"

definition trim :: "string \<Rightarrow> string" where
  "trim s = rev (dropWhile is_space (rev (dropWhile is_space s)))"

text \<open>The character class \<^verbatim>\<open>[a-z0-9]\<close>.\<close>

definition is_alnum :: "char \<Rightarrow> bool" where
  "is_alnum c =
     (let n = (of_char c :: nat) in (97 \<le> n \<and> n \<le> 122) \<or> (48 \<le> n \<and> n \<le> 57))"

text \<open>
  \<^verbatim>\<open>.replace(/[^a-z0-9]+/g, '-')\<close>: scanning from the left, every maximal run of
  characters outside the class becomes one hyphen.
\<close>

function replace_runs :: "string \<Rightarrow> string" where
  "replace_runs [] = []"
| "replace_runs (c # cs) =
     (if is_alnum c then c # replace_runs cs
      else CHR ''-'' # replace_runs (dropWhile (\<lambda>d. \<not> is_alnum d) cs))"
  by pat_completeness auto
termination
  by (relation "measure length") (auto simp: length_dropWhile_le less_Suc_eq_le)

text \<open>
  \<^verbatim>\<open>.replace(/^-+|-+$/g, '')\<close>: the hyphens at the start of the string and the
  hyphens at its end are removed.
\<close>

definition strip_hyphens :: "string \<Rightarrow> string" where
  "strip_hyphens s =
     rev (dropWhile (\<lambda>c. c = CHR ''-'') (rev (dropWhile (\<lambda>c. c = CHR ''-'') s)))"

definition normalizeId :: "string \<Rightarrow> string" where
  "normalizeId str = strip_hyphens (replace_runs (trim (toLowerCase str)))"

text \<open>\<^verbatim>\<open>str.split(' ')\<close>: the segments between the occurrences of the separator.\<close>

fun split :: "char \<Rightarrow> string \<Rightarrow> string list" where
  "split c [] = [[]]"
| "split c (x # xs) =
     (if x = c then [] # split c xs
      else (case split c xs of [] \<Rightarrow> [[x]] | w # ws \<Rightarrow> (x # w) # ws))"

text \<open>Decimal digits of a natural number, as \<^verbatim>\<open>String(n)\<close> prints an index.\<close>

function show_nat :: "nat \<Rightarrow> string" where
  "show_nat n =
     (if n < 10 then [char_of (48 + n)] else show_nat (n div 10) @ [char_of (48 + n mod 10)])"
  by pat_completeness auto
termination
  by (relation "measure id") auto

definition show_int :: "int \<Rightarrow> string" where
  "show_int i = (if i < 0 then CHR ''-'' # show_nat (nat (- i)) else show_nat (nat i))"

subsection \<open>JSON values and thrown errors\<close>

datatype json =
    JNull
  | JBool bool
  | JNum int
  | JStr string
  | JArr "json list"
  | JObj "(string \<times> json) list"

text \<open>
  An \<^verbatim>\<open>Error\<close> object: its \<^verbatim>\<open>message\<close> and its \<^verbatim>\<open>status\<close> property, which only the
  errors made by \<^verbatim>\<open>verifyAuth\<close> carry. A \<^verbatim>\<open>TypeError\<close> raised by the engine has none.
\<close>

datatype exn = Thrown (message: string) (status: "nat option")

definition TypeError :: "string \<Rightarrow> exn" where
  "TypeError m = Thrown m None"

text \<open>Truthiness of a value; \<open>None\<close> is \<^verbatim>\<open>undefined\<close>.\<close>

fun truthy :: "json option \<Rightarrow> bool" where
  "truthy None = False"
| "truthy (Some JNull) = False"
| "truthy (Some (JBool b)) = b"
| "truthy (Some (JNum n)) = (n \<noteq> 0)"
| "truthy (Some (JStr s)) = (s \<noteq> [])"
| "truthy (Some (JArr xs)) = True"
| "truthy (Some (JObj kvs)) = True"

text \<open>
  Reading a property \<^verbatim>\<open>v.k\<close> of a value that is not \<^verbatim>\<open>null\<close>. An object holds its
  properties as an association list read by \<open>map_of\<close>; the property names the
  program reads (\<^verbatim>\<open>id\<close>, \<^verbatim>\<open>make\<close>, \<^verbatim>\<open>model\<close>, \<^verbatim>\<open>year\<close>, \<^verbatim>\<open>status\<close>, \<^verbatim>\<open>items\<close>,
  \<^verbatim>\<open>item\<close>, \<^verbatim>\<open>scope\<close>) are \<^verbatim>\<open>undefined\<close> on numbers, booleans, strings and arrays.
\<close>

fun field :: "json \<Rightarrow> string \<Rightarrow> json option" where
  "field (JObj kvs) k = map_of kvs k"
| "field v k = None"

text \<open>Reading a property of \<^verbatim>\<open>null\<close> throws a \<^verbatim>\<open>TypeError\<close>.\<close>

definition get_prop :: "json \<Rightarrow> string \<Rightarrow> exn + json option" where
  "get_prop v k =
     (if v = JNull then Inl (TypeError (''Cannot read properties of null, reading '' @ k))
      else Inr (field v k))"

text \<open>
  The own enumerable properties that an object spread \<^verbatim>\<open>{...v}\<close> copies: the
  properties of an object (each key once), the indexed elements of an array, the
  indexed characters of a string, nothing for any other value.
\<close>

fun own_props :: "json option \<Rightarrow> (string \<times> json) list" where
  "own_props (Some (JObj kvs)) = AList.clearjunk kvs"
| "own_props (Some (JArr xs)) = zip (map show_nat [0..<length xs]) xs"
| "own_props (Some (JStr s)) = zip (map show_nat [0..<length s]) (map (\<lambda>c. JStr [c]) s)"
| "own_props v = []"

text \<open>
  Defining the properties \<open>src\<close> one after the other on the object \<open>target\<close>: a key
  already there keeps its place and takes the new value, a new key goes to the end.
\<close>

definition assign :: "(string \<times> json) list \<Rightarrow> (string \<times> json) list \<Rightarrow> (string \<times> json) list" where
  "assign target src = fold (\<lambda>(k, v). AList.update k v) src target"

text \<open>The object literal \<^verbatim>\<open>{ ...a, ...b }\<close>.\<close>

definition spread2 :: "json option \<Rightarrow> json option \<Rightarrow> json" where
  "spread2 a b = JObj (assign (assign [] (own_props a)) (own_props b))"

text \<open>
  \<^verbatim>\<open>String(v)\<close>, as a template literal converts a value: an array prints its
  elements separated by commas, \<^verbatim>\<open>null\<close> elements as the empty string.
\<close>

fun join_comma :: "string list \<Rightarrow> string" where
  "join_comma [] = []"
| "join_comma [s] = s"
| "join_comma (s # t # ts) = s @ '','' @ join_comma (t # ts)"

fun ToString :: "json \<Rightarrow> string" where
  "ToString JNull = ''null''"
| "ToString (JBool b) = (if b then ''true'' else ''false'')"
| "ToString (JNum n) = show_int n"
| "ToString (JStr s) = s"
| "ToString (JArr xs) = join_comma (map (\<lambda>x. if x = JNull then [] else ToString x) xs)"
| "ToString (JObj kvs) = ''[object Object]''"

definition ToString_opt :: "json option \<Rightarrow> string" where
  "ToString_opt v = (case v of None \<Rightarrow> ''undefined'' | Some x \<Rightarrow> ToString x)"

text \<open>Mapping a function that may throw over an array: the first throw ends the loop.\<close>

fun mapE :: "('a \<Rightarrow> exn + 'b) \<Rightarrow> 'a list \<Rightarrow> exn + 'b list" where
  "mapE f [] = Inr []"
| "mapE f (x # xs) =
     (case f x of
        Inl e \<Rightarrow> Inl e
      | Inr y \<Rightarrow> (case mapE f xs of Inl e \<Rightarrow> Inl e | Inr ys \<Rightarrow> Inr (y # ys)))"

fun filterE :: "('a \<Rightarrow> exn + bool) \<Rightarrow> 'a list \<Rightarrow> exn + 'a list" where
  "filterE f [] = Inr []"
| "filterE f (x # xs) =
     (case f x of
        Inl e \<Rightarrow> Inl e
      | Inr b \<Rightarrow>
          (case filterE f xs of
             Inl e \<Rightarrow> Inl e
           | Inr ys \<Rightarrow> Inr (if b then x # ys else ys)))"

subsection \<open>\<^verbatim>\<open>validateItem\<close> and the id of an incoming item\<close>

definition is_string :: "json option \<Rightarrow> bool" where
  "is_string v = (case v of Some (JStr s) \<Rightarrow> True | _ \<Rightarrow> False)"

definition is_number :: "json option \<Rightarrow> bool" where
  "is_number v = (case v of Some (JNum n) \<Rightarrow> True | _ \<Rightarrow> False)"

definition statuses :: "string list" where
  "statuses = [''Available'', ''On Hold'', ''Sold'', ''Draft'']"

definition validateItem :: "json \<Rightarrow> string list" where
  "validateItem item =
     (if \<not> truthy (field item ''id'') \<or> \<not> is_string (field item ''id'')
      then [''id is required string''] else []) @
     (if \<not> truthy (field item ''make'') then [''make is required''] else []) @
     (if \<not> truthy (field item ''model'') then [''model is required''] else []) @
     (if truthy (field item ''year'') \<and> \<not> is_number (field item ''year'')
      then [''year must be number''] else []) @
     (if truthy (field item ''status'') \<and> field item ''status'' \<notin> set (map (\<lambda>s. Some (JStr s)) statuses)
      then [''status must be Available | On Hold | Sold | Draft''] else [])"

text \<open>
  The callback of \<^verbatim>\<open>incoming.map\<close> (lines 85 to 88):
  \<^verbatim>\<open>{ ...item, id: item.id ? normalizeId(item.id) : normalizeId(`${make}-${model}-${year || ''}`) }\<close>.
  Reading \<^verbatim>\<open>item.id\<close> of \<^verbatim>\<open>null\<close> throws; so does \<^verbatim>\<open>normalizeId\<close> of a truthy id that
  is not a string, which has no \<^verbatim>\<open>toLowerCase\<close>.
\<close>

definition derived_id :: "json \<Rightarrow> string" where
  "derived_id item =
     normalizeId (ToString_opt (field item ''make'') @ ''-'' @ ToString_opt (field item ''model'') @ ''-'' @
       (if truthy (field item ''year'') then ToString_opt (field item ''year'') else []))"

definition with_id :: "json \<Rightarrow> string \<Rightarrow> json" where
  "with_id item i = JObj (AList.update ''id'' (JStr i) (assign [] (own_props (Some item))))"

definition normalizeItem :: "json \<Rightarrow> exn + json" where
  "normalizeItem item =
     (case get_prop item ''id'' of
        Inl e \<Rightarrow> Inl e
      | Inr i \<Rightarrow>
          if truthy i then
            (case i of
               Some (JStr s) \<Rightarrow> Inr (with_id item (normalizeId s))
             | _ \<Rightarrow> Inl (TypeError ''str.toLowerCase is not a function''))
          else Inr (with_id item (derived_id item)))"

text \<open>
  Lines 90 to 92: \<^verbatim>\<open>incoming.flatMap((item, idx) => validateItem(item).map((msg) => `item ${idx}: ${msg}`))\<close>.
\<close>

definition tag :: "nat \<Rightarrow> string \<Rightarrow> string" where
  "tag idx msg = ''item '' @ show_nat idx @ '': '' @ msg"

definition validationErrors :: "json list \<Rightarrow> string list" where
  "validationErrors incoming =
     concat (map (\<lambda>(idx, item). map (tag idx) (validateItem item)) (zip [0..<length incoming] incoming))"

subsection \<open>The \<^verbatim>\<open>Map\<close> of the merge step\<close>

text \<open>
  A \<^verbatim>\<open>Map\<close> keeps its entries in insertion order and compares keys by
  \<^verbatim>\<open>SameValueZero\<close>: \<^verbatim>\<open>undefined\<close>, \<^verbatim>\<open>null\<close>, booleans, numbers and strings by value,
  arrays and objects by reference. The keys of the merge step are the \<^verbatim>\<open>id\<close>
  properties of different records out of \<^verbatim>\<open>JSON.parse\<close>, or fresh strings: two
  arrays or objects among them are never the same reference.
\<close>

fun is_primitive :: "json option \<Rightarrow> bool" where
  "is_primitive (Some (JArr xs)) = False"
| "is_primitive (Some (JObj kvs)) = False"
| "is_primitive v = True"

definition sameValueZero :: "json option \<Rightarrow> json option \<Rightarrow> bool" where
  "sameValueZero a b = (is_primitive a \<and> a = b)"

type_synonym jsmap = "(json option \<times> json) list"

fun Map_set :: "json option \<Rightarrow> json \<Rightarrow> jsmap \<Rightarrow> jsmap" where
  "Map_set k v [] = [(k, v)]"
| "Map_set k v ((k', v') # m) =
     (if sameValueZero k' k then (k', v) # m else (k', v') # Map_set k v m)"

fun Map_get :: "jsmap \<Rightarrow> json option \<Rightarrow> json option" where
  "Map_get [] k = None"
| "Map_get ((k', v') # m) k = (if sameValueZero k' k then Some v' else Map_get m k)"

text \<open>\<^verbatim>\<open>new Map(pairs)\<close> sets the pairs in order.\<close>

definition new_Map :: "(json option \<times> json) list \<Rightarrow> jsmap" where
  "new_Map pairs = fold (\<lambda>(k, v). Map_set k v) pairs []"

text \<open>
  Lines 104 to 106 of \<^verbatim>\<open>handlePost\<close>:
  \<^verbatim>\<open>const map = new Map(existing.map((i) => [i.id, i]));\<close>
  \<^verbatim>\<open>incoming.forEach((item) => map.set(item.id, { ...map.get(item.id), ...item }));\<close>
  \<^verbatim>\<open>const merged = [...map.values()];\<close>
  A value that is not an array has no \<^verbatim>\<open>map\<close> method, and an element \<^verbatim>\<open>null\<close> has no
  property \<^verbatim>\<open>id\<close>: both throw.
\<close>

definition keyed :: "json \<Rightarrow> exn + (json option \<times> json)" where
  "keyed i = (case get_prop i ''id'' of Inl e \<Rightarrow> Inl e | Inr k \<Rightarrow> Inr (k, i))"

definition upsert :: "json \<Rightarrow> jsmap \<Rightarrow> jsmap" where
  "upsert item m =
     Map_set (field item ''id'') (spread2 (Map_get m (field item ''id'')) (Some item)) m"

definition mergeInventory :: "json \<Rightarrow> json list \<Rightarrow> exn + json list" where
  "mergeInventory existing incoming =
     (case existing of
        JArr xs \<Rightarrow>
          (case mapE keyed xs of
             Inl e \<Rightarrow> Inl e
           | Inr pairs \<Rightarrow> Inr (map snd (fold upsert incoming (new_Map pairs))))
      | _ \<Rightarrow> Inl (TypeError ''existing.map is not a function''))"

subsection \<open>The world outside the function, requests and responses\<close>

text \<open>
  \<open>jwtVerify\<close> stands for \<^verbatim>\<open>jwtVerify(token, JWKS, { issuer, audience })\<close>: the payload
  of a token it accepts, \<open>None\<close> when it rejects (it throws). \<open>JSON_parse\<close> gives
  \<open>Inl\<close> the message of its \<^verbatim>\<open>SyntaxError\<close>. A store operation that fails rejects with
  the message given; a write that fails leaves the document as it was.
\<close>

record world =
  AUTH0_DOMAIN :: "string option"
  AUTH0_AUDIENCE :: "string option"
  jwtVerify :: "string \<Rightarrow> json option"
  JSON_parse :: "string \<Rightarrow> string + json"
  JSON_stringify :: "json \<Rightarrow> string"
  store_get_fault :: "string option"
  store_set_fault :: "string option"

text \<open>
  The parts of the event the function reads: \<^verbatim>\<open>event.httpMethod\<close>,
  \<^verbatim>\<open>event.headers.authorization\<close>, \<^verbatim>\<open>event.queryStringParameters?.includeDrafts\<close>
  and \<^verbatim>\<open>event.body\<close>.
\<close>

record event =
  httpMethod :: string
  authorization :: "string option"
  includeDrafts :: "string option"
  body :: "string option"

text \<open>
  A response; \<open>content\<close> is the value that \<^verbatim>\<open>resp\<close> hands to \<^verbatim>\<open>JSON.stringify\<close> for
  the body (\<open>None\<close>: no body).
\<close>

record response =
  statusCode :: nat
  headers :: "(string \<times> string) list"
  content :: "json option"

definition corsHeaders :: "(string \<times> string) list \<Rightarrow> (string \<times> string) list" where
  "corsHeaders extra =
     fold (\<lambda>(k, v). AList.update k v) extra
       [(''Access-Control-Allow-Origin'', ''*''),
        (''Access-Control-Allow-Methods'', ''GET,POST,OPTIONS''),
        (''Access-Control-Allow-Headers'', ''Content-Type,Authorization'')]"

definition resp :: "nat \<Rightarrow> json \<Rightarrow> (string \<times> string) list \<Rightarrow> response" where
  "resp code b extraHeaders =
     \<lparr>statusCode = code, headers = corsHeaders extraHeaders, content = Some b\<rparr>"

definition no_cache :: "(string \<times> string) list" where
  "no_cache = [(''Cache-Control'', ''no-cache'')]"

text \<open>\<^verbatim>\<open>store.get(KEY, { type: 'text' })\<close> and \<^verbatim>\<open>store.set(KEY, text, ...)\<close>.\<close>

definition store_get :: "world \<Rightarrow> string option \<Rightarrow> exn + string option" where
  "store_get w doc = (case store_get_fault w of Some m \<Rightarrow> Inl (Thrown m None) | None \<Rightarrow> Inr doc)"

definition store_set :: "world \<Rightarrow> string \<Rightarrow> string option \<Rightarrow> exn + string option" where
  "store_set w text doc =
     (case store_set_fault w of Some m \<Rightarrow> Inl (Thrown m None) | None \<Rightarrow> Inr (Some text))"

subsection \<open>\<^verbatim>\<open>verifyAuth\<close>\<close>

definition env_set :: "string option \<Rightarrow> bool" where
  "env_set v = (case v of None \<Rightarrow> False | Some s \<Rightarrow> s \<noteq> [])"

text \<open>
  \<^verbatim>\<open>(payload.scope || '').split(' ')\<close>: a truthy scope that is not a string has no
  \<^verbatim>\<open>split\<close>.
\<close>

definition scopes_of :: "json \<Rightarrow> exn + string list" where
  "scopes_of payload =
     (case get_prop payload ''scope'' of
        Inl e \<Rightarrow> Inl e
      | Inr sc \<Rightarrow>
          if truthy sc then
            (case sc of
               Some (JStr s) \<Rightarrow> Inr (split CHR '' '' s)
             | _ \<Rightarrow> Inl (TypeError ''split is not a function''))
          else Inr (split CHR '' '' []))"

text \<open>
  \<^verbatim>\<open>authHeader.split(' ')[1]\<close>: the second segment, \<^verbatim>\<open>undefined\<close> when there is none.
\<close>

definition token_of :: "string \<Rightarrow> string option" where
  "token_of h = (case drop 1 (split CHR '' '' h) of [] \<Rightarrow> None | t # ts \<Rightarrow> Some t)"

text \<open>
  The body of the \<^verbatim>\<open>try\<close> block, lines 148 to 160. The verifier rejects a token that
  is \<^verbatim>\<open>undefined\<close>.
\<close>

definition verifyAuth_try :: "world \<Rightarrow> string option \<Rightarrow> string \<Rightarrow> exn + json" where
  "verifyAuth_try w token scopeNeeded =
     (case Option.bind token (jwtVerify w) of
        None \<Rightarrow> Inl (Thrown ''token verification failed'' None)
      | Some payload \<Rightarrow>
          if scopeNeeded \<noteq> [] then
            (case scopes_of payload of
               Inl e \<Rightarrow> Inl e
             | Inr scopes \<Rightarrow>
                 if scopeNeeded \<notin> set scopes
                 then Inl (Thrown ''Forbidden: missing scope'' (Some 403))
                 else Inr payload)
          else Inr payload)"

text \<open>
  The function: the two guards, \<^verbatim>\<open>authHeader.split(' ')[1]\<close>, the \<^verbatim>\<open>try\<close> block, and
  its \<^verbatim>\<open>catch\<close> (lines 161 to 165), which throws \<^verbatim>\<open>Unauthorized\<close> with status 401
  for whatever was thrown inside the block.
\<close>

definition verifyAuth :: "world \<Rightarrow> string option \<Rightarrow> string \<Rightarrow> exn + json" where
  "verifyAuth w authHeader scopeNeeded =
     (if \<not> env_set (AUTH0_DOMAIN w) \<or> \<not> env_set (AUTH0_AUDIENCE w)
      then Inl (Thrown ''Auth not configured'' (Some 500))
      else
        (case authHeader of
           None \<Rightarrow> Inl (Thrown ''Unauthorized'' (Some 401))
         | Some h \<Rightarrow>
             if h = [] \<or> take 7 (toLowerCase h) \<noteq> ''bearer ''
             then Inl (Thrown ''Unauthorized'' (Some 401))
             else
               (case verifyAuth_try w (token_of h) scopeNeeded of
                  Inl err \<Rightarrow> Inl (Thrown ''Unauthorized'' (Some 401))
                | Inr payload \<Rightarrow> Inr payload)))"

subsection \<open>\<^verbatim>\<open>handleGet\<close>\<close>

definition error_body :: "string \<Rightarrow> json" where
  "error_body msg = JObj [(''error'', JStr msg)]"

definition error_detail :: "string \<Rightarrow> string \<Rightarrow> json" where
  "error_detail msg detail = JObj [(''error'', JStr msg), (''detail'', JStr detail)]"

definition falsy_text :: "string option \<Rightarrow> bool" where
  "falsy_text raw = (case raw of None \<Rightarrow> True | Some t \<Rightarrow> t = [])"

text \<open>The callback \<^verbatim>\<open>(i) => i.status !== 'Draft'\<close>.\<close>

definition not_draft :: "json \<Rightarrow> exn + bool" where
  "not_draft i =
     (case get_prop i ''status'' of
        Inl e \<Rightarrow> Inl e
      | Inr st \<Rightarrow> Inr (st \<noteq> Some (JStr ''Draft'')))"

text \<open>Lines 43 to 51: the view is elevated only when the verification succeeds.\<close>

definition elevated :: "world \<Rightarrow> event \<Rightarrow> bool" where
  "elevated w ev =
     (includeDrafts ev = Some ''1'' \<and> \<not> falsy_text (authorization ev) \<and>
      (case verifyAuth w (authorization ev) ''inventory:read'' of Inl err \<Rightarrow> False | Inr p \<Rightarrow> True))"

text \<open>The body of the \<^verbatim>\<open>try\<close> block, lines 53 to 58.\<close>

definition handleGet_try :: "world \<Rightarrow> bool \<Rightarrow> string option \<Rightarrow> exn + response" where
  "handleGet_try w drafts doc =
     (case store_get w doc of
        Inl e \<Rightarrow> Inl e
      | Inr raw \<Rightarrow>
          if falsy_text raw then Inr (resp 200 (JArr []) no_cache)
          else
            (case JSON_parse w (the raw) of
               Inl m \<Rightarrow> Inl (Thrown m None)
             | Inr data \<Rightarrow>
                 (let list = (case data of JArr xs \<Rightarrow> xs | _ \<Rightarrow> []) in
                  if drafts then Inr (resp 200 (JArr list) no_cache)
                  else
                    (case filterE not_draft list of
                       Inl e \<Rightarrow> Inl e
                     | Inr filtered \<Rightarrow> Inr (resp 200 (JArr filtered) no_cache)))))"

definition handleGet :: "world \<Rightarrow> event \<Rightarrow> string option \<Rightarrow> response" where
  "handleGet w ev doc =
     (case handleGet_try w (elevated w ev) doc of
        Inl err \<Rightarrow> resp 500 (error_detail ''Failed to read inventory'' (message err)) []
      | Inr r \<Rightarrow> r)"

subsection \<open>\<^verbatim>\<open>handlePost\<close>\<close>

text \<open>
  The result of a handler that may write: what it returns or throws, and the stored
  document afterwards.
\<close>

type_synonym outcome = "(exn + response) \<times> string option"

text \<open>\<^verbatim>\<open>resp(err.status || 401, { error: err.message || 'Unauthorized' })\<close>.\<close>

definition auth_failure :: "exn \<Rightarrow> response" where
  "auth_failure err =
     resp (case status err of None \<Rightarrow> 401 | Some n \<Rightarrow> if n = 0 then 401 else n)
       (error_body (if message err = [] then ''Unauthorized'' else message err)) []"

text \<open>
  Lines 78 to 82: the items of the payload, \<open>Inr None\<close> when the body has none of the
  three shapes. Reading \<^verbatim>\<open>payload.items\<close> of \<^verbatim>\<open>null\<close> throws.
\<close>

definition incoming_of :: "json \<Rightarrow> exn + json list option" where
  "incoming_of payload =
     (case payload of
        JArr xs \<Rightarrow> Inr (Some xs)
      | _ \<Rightarrow>
          (case get_prop payload ''items'' of
             Inl e \<Rightarrow> Inl e
           | Inr (Some (JArr ys)) \<Rightarrow> Inr (Some ys)
           | Inr other \<Rightarrow>
               (case field payload ''item'' of
                  Some it \<Rightarrow> if truthy (Some it) then Inr (Some [it]) else Inr None
                | None \<Rightarrow> Inr None)))"

text \<open>Lines 96 to 102: a read or a parse that fails leaves the empty array.\<close>

definition load_existing :: "world \<Rightarrow> string option \<Rightarrow> json" where
  "load_existing w doc =
     (case store_get w doc of
        Inl e \<Rightarrow> JArr []
      | Inr raw \<Rightarrow>
          if falsy_text raw then JArr []
          else (case JSON_parse w (the raw) of Inl m \<Rightarrow> JArr [] | Inr data \<Rightarrow> data))"

text \<open>Lines 108 to 115.\<close>

definition persist :: "world \<Rightarrow> json list \<Rightarrow> string option \<Rightarrow> outcome" where
  "persist w merged doc =
     (case store_set w (JSON_stringify w (JArr merged)) doc of
        Inl err \<Rightarrow> (Inr (resp 500 (error_detail ''Failed to write inventory'' (message err)) []), doc)
      | Inr doc' \<Rightarrow> (Inr (resp 200 (JArr merged) no_cache), doc'))"

text \<open>Lines 84 to 115, from the items of the payload on.\<close>

definition upsert_items :: "world \<Rightarrow> json list \<Rightarrow> string option \<Rightarrow> outcome" where
  "upsert_items w items doc =
     (case mapE normalizeItem items of
        Inl e \<Rightarrow> (Inl e, doc)
      | Inr incoming \<Rightarrow>
          if validationErrors incoming \<noteq> [] then
            (Inr (resp 400
               (JObj [(''error'', JStr ''Validation failed''),
                      (''details'', JArr (map JStr (validationErrors incoming)))]) []), doc)
          else
            (case mergeInventory (load_existing w doc) incoming of
               Inl e \<Rightarrow> (Inl e, doc)
             | Inr merged \<Rightarrow> persist w merged doc))"

definition handlePost :: "world \<Rightarrow> event \<Rightarrow> string option \<Rightarrow> outcome" where
  "handlePost w ev doc =
     (case verifyAuth w (authorization ev) ''inventory:write'' of
        Inl err \<Rightarrow> (Inr (auth_failure err), doc)
      | Inr claims \<Rightarrow>
          (case JSON_parse w (if falsy_text (body ev) then ''{}'' else the (body ev)) of
             Inl m \<Rightarrow> (Inr (resp 400 (error_body ''Invalid JSON'') []), doc)
           | Inr payload \<Rightarrow>
               (case incoming_of payload of
                  Inl e \<Rightarrow> (Inl e, doc)
                | Inr None \<Rightarrow>
                    (Inr (resp 400 (error_body ''Body must be array, {items:[]}, or {item:{}}'') []), doc)
                | Inr (Some items) \<Rightarrow> upsert_items w items doc)))"

subsection \<open>The handler\<close>

definition handler :: "world \<Rightarrow> event \<Rightarrow> string option \<Rightarrow> outcome" where
  "handler w ev doc =
     (if httpMethod ev = ''OPTIONS''
      then (Inr \<lparr>statusCode = 200, headers = corsHeaders [], content = None\<rparr>, doc)
      else if httpMethod ev = ''GET'' then (Inr (handleGet w ev doc), doc)
      else if httpMethod ev = ''POST'' then handlePost w ev doc
      else (Inr (resp 405 (error_body ''Method not allowed'') []), doc))"

subsection \<open>Predicates of the statements\<close>

text \<open>
  A normalized id: only characters of \<^verbatim>\<open>[a-z0-9]\<close> and hyphens, and every hyphen
  is followed by a character of the class or ends the string.
\<close>

fun canonical :: "string \<Rightarrow> bool" where
  "canonical [] = True"
| "canonical (c # cs) =
     ((is_alnum c \<or> (c = CHR ''-'' \<and> (cs = [] \<or> is_alnum (hd cs)))) \<and> canonical cs)"

text \<open>
  The normalized batch of a request that \<^verbatim>\<open>handlePost\<close> authorizes, parses and
  validates: \<open>Some incoming\<close> exactly when the function gets past line 93 with
  \<open>incoming\<close>.
\<close>

definition accepted_batch :: "world \<Rightarrow> event \<Rightarrow> json list option" where
  "accepted_batch w ev =
     (case verifyAuth w (authorization ev) ''inventory:write'' of
        Inl err \<Rightarrow> None
      | Inr claims \<Rightarrow>
          (case JSON_parse w (if falsy_text (body ev) then ''{}'' else the (body ev)) of
             Inl m \<Rightarrow> None
           | Inr payload \<Rightarrow>
               (case incoming_of payload of
                  Inr (Some items) \<Rightarrow>
                    (case mapE normalizeItem items of
                       Inr incoming \<Rightarrow> if validationErrors incoming = [] then Some incoming else None
                     | Inl e \<Rightarrow> None)
                | _ \<Rightarrow> None)))"


text \<open>\<^verbatim>\<open>Array.isArray\<close>.\<close>

fun isArray :: "json \<Rightarrow> bool" where
  "isArray (JArr xs) = True"
| "isArray v = False"


text \<open>The elements of a list in the order of their first appearance.\<close>

definition first_seen :: "'a list \<Rightarrow> 'a list" where
  "first_seen ks = rev (remdups (rev ks))"

text \<open>
  What the merge step leaves under one key: the value the \<^verbatim>\<open>Map\<close> held for it at the
  start (\<open>None\<close>: no entry), under the incoming items with that key, each spread
  over the result of the one before.
\<close>

definition merged_record :: "json option \<Rightarrow> json list \<Rightarrow> json option" where
  "merged_record start its = fold (\<lambda>item acc. Some (spread2 acc (Some item))) its start"

subsection \<open>A concrete world for the examples\<close>

text \<open>
  A serializer without escapes, and a parser that reads back the documents of a
  given list; they stand for \<^verbatim>\<open>JSON.stringify\<close> and \<^verbatim>\<open>JSON.parse\<close> in the examples.
\<close>

fun render :: "json \<Rightarrow> string" where
  "render JNull = ''null''"
| "render (JBool b) = (if b then ''true'' else ''false'')"
| "render (JNum n) = show_int n"
| "render (JStr s) = CHR 0x22 # s @ [CHR 0x22]"
| "render (JArr xs) = ''['' @ join_comma (map render xs) @ '']''"
| "render (JObj kvs) =
     ''{'' @ join_comma (map (\<lambda>(k, v). CHR 0x22 # k @ [CHR 0x22] @ '':'' @ render v) kvs) @ ''}''"

definition parse_among :: "json list \<Rightarrow> string \<Rightarrow> string + json" where
  "parse_among docs text =
     (case find (\<lambda>j. render j = text) docs of
        None \<Rightarrow> Inl ''Unexpected token''
      | Some j \<Rightarrow> Inr j)"

definition car :: "string \<Rightarrow> string \<Rightarrow> string \<Rightarrow> string \<Rightarrow> json" where
  "car i mk md st = JObj [(''id'', JStr i), (''make'', JStr mk), (''model'', JStr md), (''status'', JStr st)]"

definition mustang :: json where
  "mustang = car ''a-1'' ''Ford'' ''Mustang'' ''Available''"

definition civic_draft :: json where
  "civic_draft = car ''b-2'' ''Honda'' ''Civic'' ''Draft''"

definition beetle :: json where
  "beetle = JObj [(''id'', JStr ''c-3''), (''make'', JStr ''VW''), (''model'', JStr ''Beetle'')]"

definition stock :: json where
  "stock = JArr [mustang, civic_draft, beetle]"

definition numeric_id_batch :: json where
  "numeric_id_batch = JArr [JObj [(''id'', JNum 5), (''make'', JStr ''Ford''), (''model'', JStr ''T'')]]"

definition sold_update :: json where
  "sold_update = JObj [(''item'', JObj [(''id'', JStr ''A 1''), (''make'', JStr ''Ford''),
     (''model'', JStr ''Mustang''), (''status'', JStr ''Sold'')])]"

definition golf :: json where
  "golf = JObj [(''make'', JStr ''VW''), (''model'', JStr ''Golf''), (''year'', JNum 2020)]"

definition sold_item :: json where
  "sold_item = JObj [(''id'', JStr ''A 1''), (''make'', JStr ''Ford''), (''model'', JStr ''Mustang''),
     (''status'', JStr ''Sold'')]"

definition hold_item :: json where
  "hold_item = JObj [(''id'', JStr ''a-1''), (''make'', JStr ''Ford''), (''model'', JStr ''Mustang''),
     (''status'', JStr ''On Hold'')]"

definition mixed_batch :: json where
  "mixed_batch = JArr [golf, sold_item]"

definition repeated_batch :: json where
  "repeated_batch = JArr [sold_item, hold_item]"

definition golf_batch :: json where
  "golf_batch = JObj [(''items'', JArr [golf])]"

definition mustang_red :: json where
  "mustang_red = JObj [(''id'', JStr ''a-1''), (''colour'', JStr ''red'')]"

definition repeated_stock :: json where
  "repeated_stock = JArr [mustang, civic_draft, mustang_red]"

definition array_id_stock :: json where
  "array_id_stock =
     JArr [JObj [(''id'', JArr []), (''make'', JStr ''Ford'')],
           JObj [(''id'', JArr []), (''make'', JStr ''Honda'')]]"

definition demo_docs :: "json list" where
  "demo_docs = [JNull, JObj [], stock, numeric_id_batch, sold_update, mixed_batch, repeated_batch,
     golf_batch, repeated_stock, array_id_stock]"

definition demo_tokens :: "(string \<times> json) list" where
  "demo_tokens =
     [(''t-read'', JObj [(''sub'', JStr ''clerk''), (''scope'', JStr ''inventory:read'')]),
      (''t-write'', JObj [(''sub'', JStr ''admin''), (''scope'', JStr ''inventory:read inventory:write'')])]"

definition demo_world :: world where
  "demo_world =
     \<lparr>AUTH0_DOMAIN = Some ''tenant.auth0.example'', AUTH0_AUDIENCE = Some ''inventory-api'',
      jwtVerify = map_of demo_tokens, JSON_parse = parse_among demo_docs, JSON_stringify = render,
      store_get_fault = None, store_set_fault = None\<rparr>"

definition post_event :: "string option \<Rightarrow> json \<Rightarrow> event" where
  "post_event auth payload =
     \<lparr>httpMethod = ''POST'', authorization = auth, includeDrafts = None, body = Some (render payload)\<rparr>"

definition get_event :: "string option \<Rightarrow> string option \<Rightarrow> event" where
  "get_event auth drafts =
     \<lparr>httpMethod = ''GET'', authorization = auth, includeDrafts = drafts, body = None\<rparr>"

section \<open>Normalization of ids\<close>

lemma canonical_append: "canonical (xs @ ys) \<Longrightarrow> canonical xs \<and> canonical ys"
proof (induction xs)
  case Nil
  then show ?case by simp
next
  case (Cons c xs)
  then have rest: "canonical xs \<and> canonical ys"
    by simp
  have "is_alnum c \<or> (c = CHR ''-'' \<and> (xs = [] \<or> is_alnum (hd xs)))"
  proof (cases "xs = []")
    case True
    with Cons.prems show ?thesis by auto
  next
    case False
    then have "hd (xs @ ys) = hd xs" by simp
    with Cons.prems False show ?thesis by auto
  qed
  with rest show ?case by simp
qed

lemma canonical_replace_runs: "canonical (replace_runs s)"
proof (induction s rule: replace_runs.induct)
  case 1
  show ?case by simp
next
  case (2 c cs)
  show ?case
  proof (cases "is_alnum c")
    case True
    with 2 show ?thesis by simp
  next
    case False
    let ?r = "dropWhile (\<lambda>d. \<not> is_alnum d) cs"
    have "replace_runs ?r = [] \<or> is_alnum (hd (replace_runs ?r))"
    proof (cases ?r)
      case Nil
      show ?thesis unfolding Nil by simp
    next
      case (Cons d ds)
      have "is_alnum (hd ?r)"
        using hd_dropWhile [of "\<lambda>d. \<not> is_alnum d" cs] Cons by simp
      then have "is_alnum d"
        unfolding Cons by simp
      then show ?thesis
        unfolding Cons by simp
    qed
    with 2 False show ?thesis by simp
  qed
qed

lemma replace_runs_canonical: "canonical s \<Longrightarrow> replace_runs s = s"
proof (induction s rule: replace_runs.induct)
  case 1
  show ?case by simp
next
  case (2 c cs)
  show ?case
  proof (cases "is_alnum c")
    case True
    with 2 show ?thesis by simp
  next
    case False
    with "2.prems" have c: "c = CHR ''-''" and cs: "canonical cs"
      and h: "cs = [] \<or> is_alnum (hd cs)"
      by auto
    from h have "dropWhile (\<lambda>d. \<not> is_alnum d) cs = cs"
      by (cases cs) auto
    with 2 False c cs show ?thesis by simp
  qed
qed

lemma canonical_chars: "canonical s \<Longrightarrow> c \<in> set s \<Longrightarrow> is_alnum c \<or> c = CHR ''-''"
  by (induction s) auto

lemma rev_dropWhile_takeWhile:
  "rev (dropWhile P (rev a)) @ rev (takeWhile P (rev a)) = a"
proof -
  have "rev (takeWhile P (rev a) @ dropWhile P (rev a)) = a"
    by simp
  then show ?thesis
    by (simp only: rev_append)
qed

text \<open>Once the front of a string is clean, cleaning its end leaves the front clean.\<close>

lemma ends_fixed:
  assumes "a = [] \<or> \<not> P (hd a)"
  shows "dropWhile P (rev (dropWhile P (rev a))) = rev (dropWhile P (rev a))"
proof (cases "dropWhile P (rev a)")
  case Nil
  show ?thesis unfolding Nil by simp
next
  case (Cons x xs)
  have a: "a = (rev xs @ [x]) @ rev (takeWhile P (rev a))"
    using rev_dropWhile_takeWhile [of P a] unfolding Cons by simp
  have "hd a = hd (rev xs @ [x])"
    by (subst a)
      (simp only: hd_append2 [of "rev xs @ [x]"] append_is_Nil_conv not_Cons_self2 simp_thms if_False)
  moreover have "a \<noteq> []"
    by (subst a) simp
  ultimately have "\<not> P (hd (rev xs @ [x]))"
    using assms by simp
  then have "dropWhile P (rev xs @ [x]) = rev xs @ [x]"
    by (cases "rev xs @ [x]") auto
  then show ?thesis
    unfolding Cons by simp
qed

lemma toLowerCase_char_fixed: "is_alnum c \<or> c = CHR ''-'' \<Longrightarrow> toLowerCase_char c = c"
  by (auto simp: toLowerCase_char_def is_alnum_def Let_def)

lemma not_space: "is_alnum c \<or> c = CHR ''-'' \<Longrightarrow> \<not> is_space c"
  by (auto simp: is_space_def is_alnum_def Let_def)

lemma toLowerCase_canonical: "canonical s \<Longrightarrow> toLowerCase s = s"
  unfolding toLowerCase_def
  by (rule map_idI) (auto dest: canonical_chars intro: toLowerCase_char_fixed)

lemma dropWhile_none: "(\<And>x. x \<in> set xs \<Longrightarrow> \<not> P x) \<Longrightarrow> dropWhile P xs = xs"
  by (induction xs) auto

lemma trim_canonical:
  assumes "canonical s"
  shows "trim s = s"
proof -
  have ns: "\<And>c. c \<in> set s \<Longrightarrow> \<not> is_space c"
    using assms canonical_chars not_space by blast
  have 1: "dropWhile is_space s = s"
    using ns by (rule dropWhile_none)
  have 2: "dropWhile is_space (rev s) = rev s"
    by (rule dropWhile_none) (simp add: ns)
  show ?thesis
    unfolding trim_def 1 2 by simp
qed

lemma strip_hyphens_idem: "strip_hyphens (strip_hyphens s) = strip_hyphens s"
proof -
  let ?P = "\<lambda>c. c = CHR ''-''"
  let ?a = "dropWhile ?P s"
  let ?b = "rev (dropWhile ?P (rev ?a))"
  have a: "?a = [] \<or> \<not> ?P (hd ?a)"
    by (metis (mono_tags) hd_dropWhile)
  then have 1: "dropWhile ?P ?b = ?b"
    by (rule ends_fixed)
  have 2: "dropWhile ?P (rev ?b) = rev ?b"
    by simp
  show ?thesis
    unfolding strip_hyphens_def 1 2 by simp
qed

lemma canonical_strip_hyphens:
  assumes "canonical s"
  shows "canonical (strip_hyphens s)"
proof -
  let ?P = "\<lambda>c. c = CHR ''-''"
  let ?a = "dropWhile ?P s"
  have 1: "canonical ?a"
    using assms canonical_append [of "takeWhile ?P s" ?a] by simp
  have "canonical (rev (dropWhile ?P (rev ?a)) @ rev (takeWhile ?P (rev ?a)))"
    using 1 by (simp only: rev_dropWhile_takeWhile)
  then show ?thesis
    unfolding strip_hyphens_def by (rule canonical_append [THEN conjunct1])
qed

lemma canonical_normalizeId: "canonical (normalizeId s)"
  unfolding normalizeId_def by (intro canonical_strip_hyphens canonical_replace_runs)

text \<open>
  Claim C6. Normalizing a normalized id changes nothing:
  \<open>normalizeId (normalizeId s) = normalizeId s\<close> for every string \<open>s\<close>. The first pass
  leaves a canonical string whose ends carry no hyphen; lower-casing, trimming and
  the first replacement fix every canonical string, and the second replacement is
  idempotent.
\<close>

theorem normalizeId_idempotent: "normalizeId (normalizeId s) = normalizeId s"
proof -
  let ?y = "normalizeId s"
  have c: "canonical ?y"
    by (rule canonical_normalizeId)
  have "normalizeId ?y = strip_hyphens ?y"
    unfolding normalizeId_def [of ?y]
    by (simp add: c toLowerCase_canonical trim_canonical replace_runs_canonical)
  also have "\<dots> = ?y"
    unfolding normalizeId_def by (rule strip_hyphens_idem)
  finally show ?thesis .
qed

section \<open>Authorization\<close>

lemma statusCode_resp [simp]: "statusCode (resp c b hs) = c"
  by (simp add: resp_def)

lemma content_resp [simp]: "content (resp c b hs) = Some b"
  by (simp add: resp_def)

text \<open>Every failure of \<^verbatim>\<open>verifyAuth\<close> carries the status 401 or 500.\<close>

lemma verifyAuth_status:
  "verifyAuth w h s = Inl err \<Longrightarrow> status err = Some 401 \<or> status err = Some 500"
  by (auto simp: verifyAuth_def split: if_splits option.splits sum.splits)

lemma verifyAuth_never_403: "verifyAuth w h s \<noteq> Inl (Thrown m (Some 403))"
  using verifyAuth_status [of w h s "Thrown m (Some 403)"] by auto


text \<open>
  Claim C1 (the code departs from it). When the verifier accepts the token and the
  required scope is not among the scopes of the payload, the \<^verbatim>\<open>Forbidden\<close> error
  with status 403 is thrown inside the \<^verbatim>\<open>try\<close> block, whose \<^verbatim>\<open>catch\<close> replaces it:
  \<^verbatim>\<open>verifyAuth\<close> fails with \<^verbatim>\<open>Unauthorized\<close> and status 401. The witness is the
  token \<open>t-read\<close>, whose scope claim is \<^verbatim>\<open>inventory:read\<close>, checked for
  \<^verbatim>\<open>inventory:write\<close>.
\<close>

theorem verifyAuth_missing_scope_is_401:
  assumes "env_set (AUTH0_DOMAIN w)" and "env_set (AUTH0_AUDIENCE w)"
    and "h \<noteq> []" and "take 7 (toLowerCase h) = ''bearer ''"
    and "token_of h = Some t" and "jwtVerify w t = Some payload"
    and "scopes_of payload = Inr scopes"
    and "needed \<noteq> []" and "needed \<notin> set scopes"
  shows "verifyAuth_try w (token_of h) needed = Inl (Thrown ''Forbidden: missing scope'' (Some 403))
       \<and> verifyAuth w (Some h) needed = Inl (Thrown ''Unauthorized'' (Some 401))"
proof -
  have "verifyAuth_try w (token_of h) needed = Inl (Thrown ''Forbidden: missing scope'' (Some 403))"
    using assms by (simp add: verifyAuth_try_def)
  moreover from this have "verifyAuth w (Some h) needed = Inl (Thrown ''Unauthorized'' (Some 401))"
    using assms by (simp add: verifyAuth_def)
  ultimately show ?thesis by simp
qed

theorem verifyAuth_missing_scope_is_401_witness:
  "(env_set (AUTH0_DOMAIN demo_world) \<and> env_set (AUTH0_AUDIENCE demo_world)
     \<and> ''Bearer t-read'' \<noteq> [] \<and> take 7 (toLowerCase ''Bearer t-read'') = ''bearer ''
     \<and> token_of ''Bearer t-read'' = Some ''t-read''
     \<and> jwtVerify demo_world ''t-read''
         = Some (JObj [(''sub'', JStr ''clerk''), (''scope'', JStr ''inventory:read'')])
     \<and> scopes_of (JObj [(''sub'', JStr ''clerk''), (''scope'', JStr ''inventory:read'')])
         = Inr [''inventory:read'']
     \<and> ''inventory:write'' \<noteq> [] \<and> ''inventory:write'' \<notin> set [''inventory:read''])
   \<and> verifyAuth_try demo_world (token_of ''Bearer t-read'') ''inventory:write''
       = Inl (Thrown ''Forbidden: missing scope'' (Some 403))
   \<and> verifyAuth demo_world (Some ''Bearer t-read'') ''inventory:write''
       = Inl (Thrown ''Unauthorized'' (Some 401))"
proof -
  have 1: "env_set (AUTH0_DOMAIN demo_world)" and 2: "env_set (AUTH0_AUDIENCE demo_world)"
    by code_simp+
  have 3: "''Bearer t-read'' \<noteq> []" and 4: "take 7 (toLowerCase ''Bearer t-read'') = ''bearer ''"
    by code_simp+
  have 5: "token_of ''Bearer t-read'' = Some ''t-read''"
    by code_simp
  have 6: "jwtVerify demo_world ''t-read''
         = Some (JObj [(''sub'', JStr ''clerk''), (''scope'', JStr ''inventory:read'')])"
    by code_simp
  have 7: "scopes_of (JObj [(''sub'', JStr ''clerk''), (''scope'', JStr ''inventory:read'')])
         = Inr [''inventory:read'']"
    by code_simp
  have 8: "''inventory:write'' \<noteq> []" and 9: "''inventory:write'' \<notin> set [''inventory:read'']"
    by simp_all
  note t = verifyAuth_missing_scope_is_401 [OF 1 2 3 4 5 6 7 8 9]
  show ?thesis
    using 1 2 3 4 5 6 7 8 9 t by blast
qed

text \<open>
  Claim C2. When the authorization of a POST fails, whatever the reason,
  \<^verbatim>\<open>handlePost\<close> returns a response with the status of the failure and the stored
  document is the one it was given: the store is not written.
\<close>

theorem handlePost_unauthorized_keeps_store:
  assumes "verifyAuth w (authorization ev) ''inventory:write'' = Inl err"
  shows "\<exists>r. handlePost w ev doc = (Inr r, doc) \<and> Some (statusCode r) = status err"
proof -
  have "status err = Some 401 \<or> status err = Some 500"
    using assms by (rule verifyAuth_status)
  then have "Some (statusCode (auth_failure err)) = status err"
    by (auto simp: auth_failure_def)
  moreover have "handlePost w ev doc = (Inr (auth_failure err), doc)"
    using assms by (simp add: handlePost_def)
  ultimately show ?thesis by blast
qed

theorem handlePost_unauthorized_keeps_store_witness:
  "verifyAuth demo_world (authorization (post_event (Some ''Bearer t-read'') sold_update))
      ''inventory:write'' = Inl (Thrown ''Unauthorized'' (Some 401))
   \<and> (\<exists>r. handlePost demo_world (post_event (Some ''Bearer t-read'') sold_update) (Some (render stock))
            = (Inr r, Some (render stock))
          \<and> Some (statusCode r) = status (Thrown ''Unauthorized'' (Some 401)))"
proof -
  have h: "verifyAuth demo_world (authorization (post_event (Some ''Bearer t-read'') sold_update))
      ''inventory:write'' = Inl (Thrown ''Unauthorized'' (Some 401))"
    by code_simp
  show ?thesis
    by (rule conjI [OF h handlePost_unauthorized_keeps_store [OF h]])
qed

section \<open>Reading the inventory\<close>





section \<open>Posting a batch\<close>

lemma handlePost_accepted:
  assumes "accepted_batch w ev = Some incoming"
  shows "handlePost w ev doc =
     (case mergeInventory (load_existing w doc) incoming of
        Inl e \<Rightarrow> (Inl e, doc)
      | Inr merged \<Rightarrow> persist w merged doc)"
proof -
  from assms obtain claims payload items where
    "verifyAuth w (authorization ev) ''inventory:write'' = Inr claims"
    "JSON_parse w (if falsy_text (body ev) then ''{}'' else the (body ev)) = Inr payload"
    "incoming_of payload = Inr (Some items)"
    "mapE normalizeItem items = Inr incoming"
    "validationErrors incoming = []"
    unfolding accepted_batch_def
    by (cases "verifyAuth w (authorization ev) ''inventory:write''";
        cases "JSON_parse w (if falsy_text (body ev) then ''{}'' else the (body ev))")
       (auto split: sum.splits option.splits if_splits)
  then show ?thesis
    by (simp add: handlePost_def upsert_items_def)
qed

lemma mergeInventory_not_array:
  "\<not> isArray stored \<Longrightarrow>
   mergeInventory stored incoming = Inl (TypeError ''existing.map is not a function'')"
  by (cases stored) (simp_all add: mergeInventory_def)

text \<open>
  Claim C10. An authorized POST with a valid batch throws when the stored document
  parses to a value that is not an array: the \<^verbatim>\<open>catch\<close> of lines 100 to 102 ends
  before \<^verbatim>\<open>existing.map\<close> is called, and no response is returned. \<^verbatim>\<open>handleGet\<close>
  answers any request on the same document with 200 and the empty list. The
  witness is the stored text \<^verbatim>\<open>{}\<close>.
\<close>

theorem handlePost_throws_on_stored_non_array:
  assumes "accepted_batch w ev = Some incoming"
    and "store_get_fault w = None"
    and "doc = Some text" and "text \<noteq> []"
    and "JSON_parse w text = Inr stored"
    and "\<not> isArray stored"
  shows "handlePost w ev doc = (Inl (TypeError ''existing.map is not a function''), doc)
       \<and> handleGet w ev' doc = resp 200 (JArr []) no_cache"
proof
  have "load_existing w doc = stored"
    using assms by (simp add: load_existing_def store_get_def falsy_text_def)
  then show "handlePost w ev doc = (Inl (TypeError ''existing.map is not a function''), doc)"
    using assms by (simp add: handlePost_accepted mergeInventory_not_array)
  show "handleGet w ev' doc = resp 200 (JArr []) no_cache"
    using assms
    by (cases stored)
       (simp_all add: handleGet_def handleGet_try_def store_get_def falsy_text_def)
qed

theorem handlePost_throws_on_stored_non_array_witness:
  "accepted_batch demo_world (post_event (Some ''Bearer t-write'') sold_update)
      = Some [JObj [(''id'', JStr ''a-1''), (''make'', JStr ''Ford''), (''model'', JStr ''Mustang''),
                    (''status'', JStr ''Sold'')]]
   \<and> store_get_fault demo_world = None
   \<and> Some ''{}'' = Some ''{}'' \<and> ''{}'' \<noteq> []
   \<and> JSON_parse demo_world ''{}'' = Inr (JObj [])
   \<and> \<not> isArray (JObj [])
   \<and> handlePost demo_world (post_event (Some ''Bearer t-write'') sold_update) (Some ''{}'')
       = (Inl (TypeError ''existing.map is not a function''), Some ''{}'')
   \<and> handleGet demo_world (get_event None None) (Some ''{}'') = resp 200 (JArr []) no_cache"
proof -
  have 1: "accepted_batch demo_world (post_event (Some ''Bearer t-write'') sold_update)
      = Some [JObj [(''id'', JStr ''a-1''), (''make'', JStr ''Ford''), (''model'', JStr ''Mustang''),
                    (''status'', JStr ''Sold'')]]"
    by code_simp
  have 2: "store_get_fault demo_world = None"
    by code_simp
  have 3: "Some ''{}'' = Some ''{}''" and 4: "''{}'' \<noteq> []"
    by simp_all
  have 5: "JSON_parse demo_world ''{}'' = Inr (JObj [])"
    by code_simp
  have 6: "\<not> isArray (JObj [])"
    by simp
  note t = handlePost_throws_on_stored_non_array [OF 1 2 3 4 5 6, of "get_event None None"]
  show ?thesis
    using 1 2 4 5 6 t by blast
qed

text \<open>
  Claim C9 (the code departs from it). A body that parses to \<^verbatim>\<open>null\<close> is none of
  the three shapes and is not answered with 400: \<^verbatim>\<open>Array.isArray(null)\<close> is false
  and reading \<^verbatim>\<open>payload.items\<close> throws outside any \<^verbatim>\<open>try\<close>. The witness is the body
  \<^verbatim>\<open>null\<close> itself.
\<close>

theorem handlePost_null_body_throws:
  assumes "verifyAuth w (authorization ev) ''inventory:write'' = Inr claims"
    and "body ev = Some text" and "text \<noteq> []"
    and "JSON_parse w text = Inr JNull"
  shows "handlePost w ev doc =
     (Inl (TypeError ''Cannot read properties of null, reading items''), doc)"
  using assms
  by (simp add: handlePost_def falsy_text_def incoming_of_def get_prop_def)

theorem handlePost_null_body_throws_witness:
  "verifyAuth demo_world (authorization (post_event (Some ''Bearer t-write'') JNull)) ''inventory:write''
      = Inr (JObj [(''sub'', JStr ''admin''), (''scope'', JStr ''inventory:read inventory:write'')])
   \<and> body (post_event (Some ''Bearer t-write'') JNull) = Some ''null''
   \<and> ''null'' \<noteq> []
   \<and> JSON_parse demo_world ''null'' = Inr JNull
   \<and> handlePost demo_world (post_event (Some ''Bearer t-write'') JNull) (Some (render stock))
       = (Inl (TypeError ''Cannot read properties of null, reading items''), Some (render stock))"
proof -
  have 1: "verifyAuth demo_world (authorization (post_event (Some ''Bearer t-write'') JNull))
      ''inventory:write''
      = Inr (JObj [(''sub'', JStr ''admin''), (''scope'', JStr ''inventory:read inventory:write'')])"
    by code_simp
  have 2: "body (post_event (Some ''Bearer t-write'') JNull) = Some ''null''"
    by code_simp
  have 3: "''null'' \<noteq> []"
    by simp
  have 4: "JSON_parse demo_world ''null'' = Inr JNull"
    by code_simp
  note t = handlePost_null_body_throws [OF 1 2 3 4, of "Some (render stock)"]
  show ?thesis
    using 1 2 3 4 t by blast
qed

text \<open>
  \<^verbatim>\<open>null\<close> is the only payload for which the shape test throws; a body that does not
  parse, and every other payload that has none of the three shapes, is answered
  with 400 and nothing is stored.
\<close>

lemma incoming_of_throws_iff: "(\<exists>e. incoming_of payload = Inl e) \<longleftrightarrow> payload = JNull"
  by (cases payload)
     (auto simp: incoming_of_def get_prop_def split: option.splits json.splits)

lemma handlePost_invalid_json:
  assumes "verifyAuth w (authorization ev) ''inventory:write'' = Inr claims"
    and "JSON_parse w (if falsy_text (body ev) then ''{}'' else the (body ev)) = Inl m"
  shows "handlePost w ev doc = (Inr (resp 400 (error_body ''Invalid JSON'') []), doc)"
  using assms by (simp add: handlePost_def)

lemma handlePost_other_shape:
  assumes "verifyAuth w (authorization ev) ''inventory:write'' = Inr claims"
    and "JSON_parse w (if falsy_text (body ev) then ''{}'' else the (body ev)) = Inr payload"
    and "incoming_of payload = Inr None"
  shows "handlePost w ev doc =
     (Inr (resp 400 (error_body ''Body must be array, {items:[]}, or {item:{}}'') []), doc)"
  using assms by (simp add: handlePost_def)

lemma mapE_throws:
  "x \<in> set xs \<Longrightarrow> f x = Inl e \<Longrightarrow> \<exists>e'. mapE f xs = Inl e'"
  by (induction xs) (auto split: sum.splits)

lemma normalizeItem_non_string_id:
  assumes "item \<noteq> JNull" and "truthy (field item ''id'')" and "\<not> is_string (field item ''id'')"
  shows "normalizeItem item = Inl (TypeError ''str.toLowerCase is not a function'')"
proof -
  obtain v where v: "field item ''id'' = Some v"
    using assms(2) by (cases "field item ''id''") auto
  have "\<And>s. v \<noteq> JStr s"
    using assms(3) v by (auto simp: is_string_def)
  then have "(case Some v of Some (JStr s) \<Rightarrow> Inr (with_id item (normalizeId s))
               | _ \<Rightarrow> Inl (TypeError ''str.toLowerCase is not a function''))
             = Inl (TypeError ''str.toLowerCase is not a function'')"
    by (cases v) auto
  then show ?thesis
    using assms(1,2) v by (simp add: normalizeItem_def get_prop_def)
qed


text \<open>
  Claim C7 (the code departs from it). An item whose id is truthy and not a string,
  as \<^verbatim>\<open>{id: 5, make: "Ford", model: "T"}\<close>, is invalid: \<^verbatim>\<open>validateItem\<close> reports
  \<^verbatim>\<open>id is required string\<close> for it. But line 87 passes the id to \<^verbatim>\<open>normalizeId\<close>
  before any validation, and the value has no \<^verbatim>\<open>toLowerCase\<close>: for a batch that holds
  such an item the handler throws instead of returning 400.
\<close>

theorem handlePost_non_string_id_throws:
  assumes "verifyAuth w (authorization ev) ''inventory:write'' = Inr claims"
    and "JSON_parse w (if falsy_text (body ev) then ''{}'' else the (body ev)) = Inr payload"
    and "incoming_of payload = Inr (Some items)"
    and "item \<in> set items" and "item \<noteq> JNull"
    and "truthy (field item ''id'')" and "\<not> is_string (field item ''id'')"
  shows "validateItem item \<noteq> [] \<and> (\<exists>e. handlePost w ev doc = (Inl e, doc))"
proof
  show "validateItem item \<noteq> []"
    using assms(7) by (simp add: validateItem_def)
  have "normalizeItem item = Inl (TypeError ''str.toLowerCase is not a function'')"
    using assms(5,6,7) by (rule normalizeItem_non_string_id)
  with assms(4) obtain e where e: "mapE normalizeItem items = Inl e"
    using mapE_throws [of item items normalizeItem] by blast
  have "handlePost w ev doc = (Inl e, doc)"
    using assms(1,2,3) e by (simp add: handlePost_def upsert_items_def)
  then show "\<exists>e. handlePost w ev doc = (Inl e, doc)" ..
qed


theorem handlePost_non_string_id_throws_witness:
  "verifyAuth demo_world (authorization (post_event (Some ''Bearer t-write'') numeric_id_batch))
      ''inventory:write''
      = Inr (JObj [(''sub'', JStr ''admin''), (''scope'', JStr ''inventory:read inventory:write'')])
   \<and> JSON_parse demo_world
        (if falsy_text (body (post_event (Some ''Bearer t-write'') numeric_id_batch)) then ''{}''
         else the (body (post_event (Some ''Bearer t-write'') numeric_id_batch)))
      = Inr (JArr [JObj [(''id'', JNum 5), (''make'', JStr ''Ford''), (''model'', JStr ''T'')]])
   \<and> incoming_of (JArr [JObj [(''id'', JNum 5), (''make'', JStr ''Ford''), (''model'', JStr ''T'')]])
      = Inr (Some [JObj [(''id'', JNum 5), (''make'', JStr ''Ford''), (''model'', JStr ''T'')]])
   \<and> validateItem (JObj [(''id'', JNum 5), (''make'', JStr ''Ford''), (''model'', JStr ''T'')]) \<noteq> []
   \<and> (\<exists>e. handlePost demo_world (post_event (Some ''Bearer t-write'') numeric_id_batch)
            (Some (render stock)) = (Inl e, Some (render stock)))"
proof -
  let ?item = "JObj [(''id'', JNum 5), (''make'', JStr ''Ford''), (''model'', JStr ''T'')]"
  have 1: "verifyAuth demo_world (authorization (post_event (Some ''Bearer t-write'') numeric_id_batch))
      ''inventory:write''
      = Inr (JObj [(''sub'', JStr ''admin''), (''scope'', JStr ''inventory:read inventory:write'')])"
    by code_simp
  have 2: "JSON_parse demo_world
        (if falsy_text (body (post_event (Some ''Bearer t-write'') numeric_id_batch)) then ''{}''
         else the (body (post_event (Some ''Bearer t-write'') numeric_id_batch)))
      = Inr (JArr [?item])"
    by code_simp
  have 3: "incoming_of (JArr [?item]) = Inr (Some [?item])"
    by (simp add: incoming_of_def)
  have 4: "?item \<in> set [?item]" and 5: "?item \<noteq> JNull"
    by simp_all
  have 6: "truthy (field ?item ''id'')" and 7: "\<not> is_string (field ?item ''id'')"
    by (simp_all add: is_string_def)
  note t = handlePost_non_string_id_throws [OF 1 2 3 4 5 6 7, of "Some (render stock)"]
  show ?thesis
    by (rule conjI [OF 1 conjI [OF 2 conjI [OF 3 t]]])
qed

text \<open>
  When the normalization of the batch does not throw, validation is exhaustive: one
  message for every violation of every item, and nothing is stored.
\<close>

lemma upsert_items_rejects:
  assumes "mapE normalizeItem items = Inr incoming" and "validationErrors incoming \<noteq> []"
  shows "upsert_items w items doc =
     (Inr (resp 400 (JObj [(''error'', JStr ''Validation failed''),
        (''details'', JArr (map JStr (validationErrors incoming)))]) []), doc)"
  using assms by (simp add: upsert_items_def)

lemma length_validationErrors:
  "length (validationErrors incoming) = sum_list (map (\<lambda>item. length (validateItem item)) incoming)"
proof -
  let ?zs = "zip [0..<length incoming] incoming"
  have "length (validationErrors incoming)
        = sum_list (map (\<lambda>p. length (validateItem (snd p))) ?zs)"
    by (simp add: validationErrors_def length_concat comp_def case_prod_beta)
  also have "map (\<lambda>p. length (validateItem (snd p))) ?zs
        = map (\<lambda>item. length (validateItem item)) (map snd ?zs)"
    by (simp only: map_map comp_def)
  also have "map snd ?zs = incoming"
    by (simp add: map_snd_zip)
  finally show ?thesis .
qed

section \<open>The merge step\<close>

subsection \<open>Object spread\<close>








subsection \<open>The Map\<close>









subsection \<open>Accepted batches\<close>






subsection \<open>The entries after the merge\<close>






lemma set_first_seen [simp]: "set (first_seen ks) = set ks"
  by (simp add: first_seen_def)

lemma distinct_first_seen [simp]: "distinct (first_seen ks)"
  by (simp add: first_seen_def)




subsection \<open>Every entry is keyed by the id of its record\<close>






section \<open>What a POST stores\<close>




lemma merged_record_Nil [simp]: "merged_record start [] = start"
  by (simp add: merged_record_def)













end
